theory Spec2Isabelle
  imports Main "HOL-Library.Finite_Map" "HOL-Library.Multiset"
begin

section \<open>JavaScript values held by the store\<close>

text \<open>
  The store (object \<open>Storage\<close>) keeps one document in memory and writes it to a JSON
  file with \<open>JSON.stringify\<close>; it reads it back with \<open>JSON.parse\<close>. Every value
  that crosses this boundary is a JSON value, so the values of the model are JSON values.

  \<^item> An object is a finite map from keys to values. The order in which a JavaScript object
    enumerates its keys is not represented: two objects with the same keys and the same
    values are equal.
  \<^item> A number is a mathematical integer (the timestamps of the program are integer
    milliseconds). Fractions and the rounding of doubles are not represented.
  \<^item> \<open>undefined\<close> is not a JSON value. Where the code reads a property that may be
    missing, the model returns \<open>None\<close> for \<open>undefined\<close>.
  \<^item> Object identity is not represented (see \<open>strict_eq\<close>).
\<close>

datatype json =
    JNull
  | JBool bool
  | JNum int
  | JStr string
  | JArr "json list"
  | JObj "(string, json) fmap"

datatype error =
    NoFolderConnected  \<comment> \<open>\<open>throw new Error('No folder connected.')\<close> in \<open>openFile\<close>\<close>
  | NotConnected       \<comment> \<open>the \<open>throw new Error(...)\<close> of \<open>_save\<close> when \<open>_fileHandle\<close> is null\<close>
  | TypeError          \<comment> \<open>property access on \<open>null\<close>, call of a missing method, \<open>in\<close> on a primitive\<close>
  | AbortError         \<comment> \<open>the user dismissed the directory picker\<close>
  | NotFoundError      \<comment> \<open>\<open>getFile()\<close> on a handle whose file is gone\<close>
  | Unmodelled         \<comment> \<open>a numeric coercion that leaves the integers (string, array or object as timestamp)\<close>

subsection \<open>Property access, truthiness, strict equality\<close>

text \<open>
  \<open>v.k\<close> for the keys the program reads (\<open>id\<close>, \<open>finalizedAt\<close>, \<open>settings\<close>,
  \<open>attendees\<close>, \<open>meetings\<close>, \<open>draft\<close>). None of them is an array index, \<open>length\<close> or
  a member of a prototype, so on an array, a string, a number or a boolean the access
  yields \<open>undefined\<close>; on \<open>null\<close> it throws a TypeError.
\<close>

fun get_prop :: "json \<Rightarrow> string \<Rightarrow> error + json option" where
  "get_prop JNull k = Inl TypeError"
| "get_prop (JObj m) k = Inr (fmlookup m k)"
| "get_prop v k = Inr None"

text \<open>\<open>k in v\<close>: throws a TypeError unless \<open>v\<close> is an object (arrays included).\<close>

fun has_key :: "string \<Rightarrow> json \<Rightarrow> error + bool" where
  "has_key k (JObj m) = Inr (fmlookup m k \<noteq> None)"
| "has_key k (JArr xs) = Inr False"
| "has_key k v = Inl TypeError"

text \<open>The truth value JavaScript gives a value in \<open>if (v)\<close>, \<open>v && w\<close>, \<open>v || w\<close>, \<open>!v\<close>.\<close>

fun truthy :: "json option \<Rightarrow> bool" where
  "truthy None = False"
| "truthy (Some JNull) = False"
| "truthy (Some (JBool b)) = b"
| "truthy (Some (JNum n)) = (n \<noteq> 0)"
| "truthy (Some (JStr s)) = (s \<noteq> [])"
| "truthy (Some (JArr xs)) = True"
| "truthy (Some (JObj m)) = True"

text \<open>\<open>typeof v === 'object'\<close>: true of objects, arrays and \<open>null\<close>.\<close>

fun typeof_object :: "json option \<Rightarrow> bool" where
  "typeof_object (Some JNull) = True"
| "typeof_object (Some (JArr xs)) = True"
| "typeof_object (Some (JObj m)) = True"
| "typeof_object v = False"

fun isArray :: "json option \<Rightarrow> bool" where
  "isArray (Some (JArr xs)) = True"
| "isArray v = False"

text \<open>
  \<open>a === b\<close>. Primitives are compared by value and \<open>undefined\<close> equals only itself. Two
  objects or two arrays are equal only when they are the same object; the model has no
  object identity and takes them as distinct, which is what JavaScript answers for any
  two values that were parsed from a file or built separately.
\<close>

fun strict_eq :: "json option \<Rightarrow> json option \<Rightarrow> bool" where
  "strict_eq None None = True"
| "strict_eq (Some JNull) (Some JNull) = True"
| "strict_eq (Some (JBool a)) (Some (JBool b)) = (a = b)"
| "strict_eq (Some (JNum a)) (Some (JNum b)) = (a = b)"
| "strict_eq (Some (JStr a)) (Some (JStr b)) = (a = b)"
| "strict_eq a b = False"

subsection \<open>Object spread\<close>

text \<open>
  \<open>{ ...v }\<close> copies the own enumerable properties of \<open>v\<close>: the entries of an object,
  the elements of an array under their decimal indices, the characters of a string
  under their decimal indices, and nothing for \<open>null\<close>, a number or a boolean.
\<close>

definition digit :: "nat \<Rightarrow> char" where
  "digit d = char_of (48 + d)"

function decimal :: "nat \<Rightarrow> string" where
  "decimal n = (if n < 10 then [digit n] else decimal (n div 10) @ [digit (n mod 10)])"
  by pat_completeness auto
termination
  by (relation "measure id") auto

declare decimal.simps [simp del]

definition indexed :: "json list \<Rightarrow> (string, json) fmap" where
  "indexed xs = fmap_of_list (zip (map decimal [0 ..< length xs]) xs)"

fun spread :: "json \<Rightarrow> (string, json) fmap" where
  "spread (JObj m) = m"
| "spread (JArr xs) = indexed xs"
| "spread (JStr s) = indexed (map (\<lambda>c. JStr [c]) s)"
| "spread v = fmempty"

section \<open>The document and the store\<close>

text \<open>
  \<open>_data\<close> is an object with the four properties \<open>settings\<close>, \<open>attendees\<close>,
  \<open>meetings\<close>, \<open>draft\<close>. JavaScript does not type them, so each holds any value.
\<close>

record document =
  settings :: json
  attendees :: json
  meetings :: json
  draft :: json

text \<open>\<open>_empty()\<close>: the empty database template.\<close>

definition default_settings :: "(string, json) fmap" where
  "default_settings = fmap_of_list
     [(''id'', JStr ''app''), (''dateMode'', JStr ''exact''), (''logoDataUrl'', JNull),
      (''pdfAccentColor'', JStr ''#4b5563''), (''pdfBgColor'', JStr ''#f3f4f6'')]"

definition empty_doc :: document where
  "empty_doc = \<lparr> settings = JObj default_settings, attendees = JArr [],
                 meetings = JArr [], draft = JNull \<rparr>"

text \<open>
  A file holds text. The program looks at the text only through \<open>text.trim()\<close> and
  \<open>JSON.parse\<close>, so a text is represented by what these two make of it: blank (empty
  after trimming), malformed (\<open>JSON.parse\<close> throws) or the parsed value.
  \<open>JSON.stringify(v, null, 2)\<close> of a JSON value \<open>v\<close> writes a text that parses back
  to \<open>v\<close>; this property of the platform is built into the representation.
\<close>

datatype file_text = Blank | Malformed | Json json

text \<open>
  A directory handle is the number of a directory the user granted; a file handle names
  a file of such a directory. The disk maps each existing file to its text.
\<close>

type_synonym dir_handle = nat
type_synonym file_handle = "dir_handle \<times> string"
type_synonym disk = "file_handle \<Rightarrow> file_text option"

text \<open>
  The fields of \<open>Storage\<close>. \<open>_data\<close> is \<open>null\<close> until \<open>init()\<close> has run.
\<close>

record storage =
  dirHandle :: "dir_handle option"
  fileHandle :: "file_handle option"
  filename :: "string option"
  data :: "document option"

text \<open>
  The result of an asynchronous method: the error it rejected with, if any, and the
  store and the disk as it left them. A method that throws after an assignment leaves
  the assignment in place.
\<close>

type_synonym outcome = "error option \<times> storage \<times> disk"

definition init :: "storage \<Rightarrow> storage" where
  "init st = st\<lparr>data := Some empty_doc\<rparr>"

definition initial :: storage where
  "initial = \<lparr> dirHandle = None, fileHandle = None, filename = None, data = None \<rparr>"


section \<open>Binding a file (multi-file store)\<close>

text \<open>
  \<open>connectFolder()\<close>: \<open>showDirectoryPicker\<close> resolves to the directory the user picks or
  rejects when the user declines; the pick is an input of the model. A rejected
  \<open>await\<close> leaves the three assignments undone.
\<close>

definition connectFolder :: "dir_handle option \<Rightarrow> storage \<Rightarrow> error option \<times> storage" where
  "connectFolder pick st =
     (case pick of
        None \<Rightarrow> (Some AbortError, st)
      | Some d \<Rightarrow> (None, st\<lparr>dirHandle := Some d, fileHandle := None, filename := None\<rparr>))"

text \<open>\<open>toLowerCase()\<close> on the ASCII letters and \<open>endsWith\<close>.\<close>

definition lower_char :: "char \<Rightarrow> char" where
  "lower_char c = (let n = (of_char c :: nat) in if 65 \<le> n \<and> n \<le> 90 then char_of (n + 32) else c)"

definition toLowerCase :: "string \<Rightarrow> string" where
  "toLowerCase s = map lower_char s"

definition endsWith :: "string \<Rightarrow> string \<Rightarrow> bool" where
  "endsWith s suf = (length suf \<le> length s \<and> drop (length s - length suf) s = suf)"

definition json_name :: "string \<Rightarrow> string" where
  "json_name fname = (if \<not> endsWith (toLowerCase fname) ''.json'' then fname @ ''.json'' else fname)"

text \<open>
  \<open>getFileHandle(name, { create: true })\<close>: the file is created empty when the
  directory has none of that name. The platform's own refusals (a name it does not
  accept, a revoked permission) are not represented.
\<close>

definition getFileHandle_create :: "dir_handle \<Rightarrow> string \<Rightarrow> disk \<Rightarrow> file_handle \<times> disk" where
  "getFileHandle_create d name dk =
     ((d, name), (case dk (d, name) of None \<Rightarrow> dk((d, name) \<mapsto> Blank) | Some t \<Rightarrow> dk))"

text \<open>
  The root test of \<open>_loadFromFile\<close>:
  \<open>!parsed || typeof parsed !== 'object' || Array.isArray(parsed)\<close>.
\<close>

definition unexpected_root :: "json \<Rightarrow> bool" where
  "unexpected_root parsed =
     (\<not> truthy (Some parsed) \<or> \<not> typeof_object (Some parsed) \<or> isArray (Some parsed))"

definition looksValid :: "(string, json) fmap \<Rightarrow> bool" where
  "looksValid p =
     (fmlookup p ''settings'' \<noteq> None \<or> fmlookup p ''meetings'' \<noteq> None \<or>
      fmlookup p ''attendees'' \<noteq> None \<or> fmlookup p ''draft'' \<noteq> None)"

text \<open>The four statements that merge the sections of the parsed object \<open>p\<close>.\<close>

definition merge_settings :: "json option \<Rightarrow> document \<Rightarrow> document" where
  "merge_settings s d =
     (case s of
        Some v \<Rightarrow> if truthy s \<and> typeof_object s
                  then d\<lparr>settings := JObj (default_settings ++\<^sub>f spread v)\<rparr> else d
      | None \<Rightarrow> d)"

definition merge_attendees :: "json option \<Rightarrow> document \<Rightarrow> document" where
  "merge_attendees a d = (case a of Some v \<Rightarrow> if isArray a then d\<lparr>attendees := v\<rparr> else d | None \<Rightarrow> d)"

definition merge_meetings :: "json option \<Rightarrow> document \<Rightarrow> document" where
  "merge_meetings a d = (case a of Some v \<Rightarrow> if isArray a then d\<lparr>meetings := v\<rparr> else d | None \<Rightarrow> d)"

definition merge_draft :: "json option \<Rightarrow> document \<Rightarrow> document" where
  "merge_draft r d = (case r of Some v \<Rightarrow> d\<lparr>draft := v\<rparr> | None \<Rightarrow> d)"

definition merge_sections :: "(string, json) fmap \<Rightarrow> document \<Rightarrow> document" where
  "merge_sections p d =
     merge_draft (fmlookup p ''draft'')
       (merge_meetings (fmlookup p ''meetings'')
         (merge_attendees (fmlookup p ''attendees'')
           (merge_settings (fmlookup p ''settings'') d)))"

text \<open>Whether one of the four statements assigns (it throws when \<open>_data\<close> is \<open>null\<close>).\<close>

definition assigns :: "(string, json) fmap \<Rightarrow> bool" where
  "assigns p =
     ((truthy (fmlookup p ''settings'') \<and> typeof_object (fmlookup p ''settings'')) \<or>
      isArray (fmlookup p ''attendees'') \<or> isArray (fmlookup p ''meetings'') \<or>
      fmlookup p ''draft'' \<noteq> None)"

text \<open>\<open>_loadFromFile()\<close>: read the open file into \<open>_data\<close>, with schema validation.\<close>

definition loadFromFile :: "storage \<Rightarrow> disk \<Rightarrow> outcome" where
  "loadFromFile st dk =
     (case fileHandle st of
        None \<Rightarrow> (Some TypeError, st, dk)
      | Some h \<Rightarrow>
         (case dk h of
            None \<Rightarrow> (Some NotFoundError, st, dk)
          | Some Blank \<Rightarrow> (None, st, dk)
          | Some Malformed \<Rightarrow> (None, st, dk)
          | Some (Json parsed) \<Rightarrow>
              if unexpected_root parsed then (None, st, dk)
              else (case parsed of
                      JObj p \<Rightarrow>
                        if \<not> looksValid p then (None, st, dk)
                        else (case data st of
                                Some d \<Rightarrow> (None, st\<lparr>data := Some (merge_sections p d)\<rparr>, dk)
                              | None \<Rightarrow> if assigns p then (Some TypeError, st, dk)
                                        else (None, st, dk))
                    | _ \<Rightarrow> (None, st, dk))))"

text \<open>
  \<open>openFile(filename)\<close>: bind to a specific JSON file. Creates the file if it does
  not exist, resets the in-memory state, then loads and validates its contents.
\<close>

definition openFile :: "string \<Rightarrow> storage \<Rightarrow> disk \<Rightarrow> outcome" where
  "openFile fname st dk =
     (case dirHandle st of
        None \<Rightarrow> (Some NoFolderConnected, st, dk)
      | Some d \<Rightarrow>
          (let name = json_name fname;
               st1 = st\<lparr>data := Some empty_doc, filename := Some name\<rparr>;
               (h, dk1) = getFileHandle_create d name dk
           in loadFromFile (st1\<lparr>fileHandle := Some h\<rparr>) dk1))"

section \<open>Saving\<close>

text \<open>
  \<open>JSON.stringify(this._data, null, 2)\<close>: the parsed value of the text it writes.
\<close>

definition properties :: "document \<Rightarrow> (string, json) fmap" where
  "properties d = fmap_of_list
     [(''settings'', settings d), (''attendees'', attendees d),
      (''meetings'', meetings d), (''draft'', draft d)]"

definition stringify :: "document option \<Rightarrow> json" where
  "stringify dt = (case dt of None \<Rightarrow> JNull | Some d \<Rightarrow> JObj (properties d))"

text \<open>
  \<open>_save()\<close>: write \<open>_data\<close> back to the open file. Both files of the repository that
  implement the file store have this method; they differ in the message of the error.
\<close>

definition save :: "storage \<Rightarrow> disk \<Rightarrow> outcome" where
  "save st dk =
     (case fileHandle st of
        None \<Rightarrow> (Some NotConnected, st, dk)
      | Some h \<Rightarrow> (None, st, dk(h \<mapsto> Json (stringify (data st)))))"

section \<open>Section operations\<close>

text \<open>
  Each operation assigns to a property of \<open>_data\<close> (a TypeError when \<open>_data\<close> is
  \<open>null\<close>) and then awaits \<open>_save()\<close>. The two file stores of the repository have the
  same text for these operations.
\<close>

definition saveDraft :: "json \<Rightarrow> storage \<Rightarrow> disk \<Rightarrow> outcome" where
  "saveDraft meeting st dk =
     (case data st of
        None \<Rightarrow> (Some TypeError, st, dk)
      | Some d \<Rightarrow>
          save (st\<lparr>data := Some (d\<lparr>draft := JObj (fmupd ''id'' (JStr ''current'') (spread meeting))\<rparr>)\<rparr>) dk)"

definition clearDraft :: "storage \<Rightarrow> disk \<Rightarrow> outcome" where
  "clearDraft st dk =
     (case data st of
        None \<Rightarrow> (Some TypeError, st, dk)
      | Some d \<Rightarrow> save (st\<lparr>data := Some (d\<lparr>draft := JNull\<rparr>)\<rparr>) dk)"

definition saveSettings :: "json \<Rightarrow> storage \<Rightarrow> disk \<Rightarrow> outcome" where
  "saveSettings s st dk =
     (case data st of
        None \<Rightarrow> (Some TypeError, st, dk)
      | Some d \<Rightarrow>
          save (st\<lparr>data := Some (d\<lparr>settings := JObj (fmupd ''id'' (JStr ''app'') (spread s))\<rparr>)\<rparr>) dk)"

definition saveAttendees :: "json \<Rightarrow> storage \<Rightarrow> disk \<Rightarrow> outcome" where
  "saveAttendees list st dk =
     (case data st of
        None \<Rightarrow> (Some TypeError, st, dk)
      | Some d \<Rightarrow> save (st\<lparr>data := Some (d\<lparr>attendees := list\<rparr>)\<rparr>) dk)"

text \<open>
  \<open>meetings.findIndex(m => m.id === meeting.id)\<close>: the callback runs on the elements in
  order until it answers true; it throws on a \<open>null\<close> element, and on a \<open>null\<close>
  argument as soon as there is an element to compare with.
\<close>

fun findIndex_id :: "json list \<Rightarrow> json \<Rightarrow> error + nat option" where
  "findIndex_id [] meeting = Inr None"
| "findIndex_id (m # ms) meeting =
     (case get_prop m ''id'' of
        Inl e \<Rightarrow> Inl e
      | Inr a \<Rightarrow>
         (case get_prop meeting ''id'' of
            Inl e \<Rightarrow> Inl e
          | Inr b \<Rightarrow>
              if strict_eq a b then Inr (Some 0)
              else (case findIndex_id ms meeting of
                      Inl e \<Rightarrow> Inl e
                    | Inr None \<Rightarrow> Inr None
                    | Inr (Some i) \<Rightarrow> Inr (Some (Suc i)))))"

text \<open>
  \<open>saveMeeting(meeting)\<close>. A value that is not an array has no \<open>findIndex\<close> method:
  the call throws a TypeError.
\<close>

definition saveMeeting :: "json \<Rightarrow> storage \<Rightarrow> disk \<Rightarrow> outcome" where
  "saveMeeting meeting st dk =
     (case data st of
        None \<Rightarrow> (Some TypeError, st, dk)
      | Some d \<Rightarrow>
         (case meetings d of
            JArr ms \<Rightarrow>
              (case findIndex_id ms meeting of
                 Inl e \<Rightarrow> (Some e, st, dk)
               | Inr (Some i) \<Rightarrow> save (st\<lparr>data := Some (d\<lparr>meetings := JArr (ms[i := meeting])\<rparr>)\<rparr>) dk
               | Inr None \<Rightarrow> save (st\<lparr>data := Some (d\<lparr>meetings := JArr (ms @ [meeting])\<rparr>)\<rparr>) dk)
          | _ \<Rightarrow> (Some TypeError, st, dk)))"

text \<open>\<open>meetings.filter(m => m.id !== id)\<close>: the callback throws on a \<open>null\<close> element.\<close>

fun filter_not_id :: "json list \<Rightarrow> json \<Rightarrow> error + json list" where
  "filter_not_id [] i = Inr []"
| "filter_not_id (m # ms) i =
     (case get_prop m ''id'' of
        Inl e \<Rightarrow> Inl e
      | Inr a \<Rightarrow>
         (case filter_not_id ms i of
            Inl e \<Rightarrow> Inl e
          | Inr r \<Rightarrow> Inr (if \<not> strict_eq a (Some i) then m # r else r)))"

definition deleteMeeting :: "json \<Rightarrow> storage \<Rightarrow> disk \<Rightarrow> outcome" where
  "deleteMeeting i st dk =
     (case data st of
        None \<Rightarrow> (Some TypeError, st, dk)
      | Some d \<Rightarrow>
         (case meetings d of
            JArr ms \<Rightarrow>
              (case filter_not_id ms i of
                 Inl e \<Rightarrow> (Some e, st, dk)
               | Inr r \<Rightarrow> save (st\<lparr>data := Some (d\<lparr>meetings := JArr r\<rparr>)\<rparr>) dk)
          | _ \<Rightarrow> (Some TypeError, st, dk)))"


section \<open>Listing the meetings\<close>

text \<open>
  \<open>x.finalizedAt || 0\<close> as the number the subtraction of the comparator works on. A
  falsy value (missing, \<open>null\<close>, \<open>false\<close>, \<open>0\<close>, the empty string) gives \<open>0\<close>, a
  number gives itself and \<open>true\<close> gives \<open>1\<close>. A non-empty string, an array or an object
  is coerced by rules that lead to fractions or \<open>NaN\<close>; the model stops there.
\<close>

definition finalizedAt_or_0 :: "json \<Rightarrow> error + int" where
  "finalizedAt_or_0 x =
     (case get_prop x ''finalizedAt'' of
        Inl e \<Rightarrow> Inl e
      | Inr v \<Rightarrow>
          if truthy v
          then (case v of
                  Some (JNum n) \<Rightarrow> Inr n
                | Some (JBool b) \<Rightarrow> Inr 1
                | _ \<Rightarrow> Inl Unmodelled)
          else Inr 0)"

definition timestamp :: "json \<Rightarrow> int" where
  "timestamp x = (case finalizedAt_or_0 x of Inr n \<Rightarrow> n | Inl e \<Rightarrow> 0)"

text \<open>
  \<open>list.sort((a, b) => (b.finalizedAt || 0) - (a.finalizedAt || 0))\<close>.
  \<open>Array.prototype.sort\<close> is stable and puts \<open>a\<close> before \<open>b\<close> when the comparator is
  negative, that is when \<open>a\<close> has the greater timestamp: the result is the stable sort
  by descending timestamp. With fewer than two elements the comparator is not called;
  with two or more every element is compared at least once, so a \<open>null\<close> element
  throws.
\<close>

definition sort_finalizedAt :: "json list \<Rightarrow> error + json list" where
  "sort_finalizedAt xs =
     (if length xs < 2 then Inr xs
      else if JNull \<in> set xs then Inl TypeError
      else if Inl Unmodelled \<in> set (map finalizedAt_or_0 xs) then Inl Unmodelled
      else Inr (sort_key (\<lambda>x. - timestamp x) xs))"

text \<open>\<open>[...v]\<close>: the elements of an array, the characters of a string, a TypeError otherwise.\<close>

fun array_spread :: "json \<Rightarrow> error + json list" where
  "array_spread (JArr xs) = Inr xs"
| "array_spread (JStr s) = Inr (map (\<lambda>c. JStr [c]) s)"
| "array_spread v = Inl TypeError"

text \<open>
  \<open>getAllMeetings()\<close> sorts a fresh copy; the model returns the store along with the
  list to show what the method leaves behind.
\<close>

definition getAllMeetings :: "storage \<Rightarrow> (error + json list) \<times> storage" where
  "getAllMeetings st =
     (case data st of
        None \<Rightarrow> (Inl TypeError, st)
      | Some d \<Rightarrow>
         (case array_spread (meetings d) of
            Inl e \<Rightarrow> (Inl e, st)
          | Inr list \<Rightarrow> (sort_finalizedAt list, st)))"

section \<open>The single-file store (storage.js)\<close>

text \<open>
  \<open>storage.js\<close> binds the fixed file \<open>db.json\<close> of the chosen folder. Its \<open>_data\<close>
  starts as the default document, it has no \<open>_filename\<close>, and its section operations
  and \<open>_save\<close> are the ones above. Its \<open>connectFolder\<close> and \<open>_loadFromFile\<close> differ.
\<close>

definition initial_dbjson :: storage where
  "initial_dbjson = \<lparr> dirHandle = None, fileHandle = None, filename = None, data = Some empty_doc \<rparr>"

text \<open>\<open>if (p.k) this._data.k = p.k\<close>.\<close>

definition overlay :: "json option \<Rightarrow> (json \<Rightarrow> document \<Rightarrow> document) \<Rightarrow> document \<Rightarrow> document" where
  "overlay v assign d = (case v of Some w \<Rightarrow> if truthy v then assign w d else d | None \<Rightarrow> d)"

text \<open>
  The body of the \<open>try\<close> block. A TypeError (\<open>p\<close> is \<open>null\<close>, or \<open>'draft' in p\<close> on a
  primitive) is caught: what was assigned before it stays.
\<close>

definition overlay_sections :: "json \<Rightarrow> document \<Rightarrow> document" where
  "overlay_sections p d =
     (case get_prop p ''settings'' of
        Inl e \<Rightarrow> d
      | Inr s \<Rightarrow>
         (let d1 = overlay s (\<lambda>w x. x\<lparr>settings := w\<rparr>) d in
          case get_prop p ''attendees'' of
            Inl e \<Rightarrow> d1
          | Inr a \<Rightarrow>
             (let d2 = overlay a (\<lambda>w x. x\<lparr>attendees := w\<rparr>) d1 in
              case get_prop p ''meetings'' of
                Inl e \<Rightarrow> d2
              | Inr m \<Rightarrow>
                 (let d3 = overlay m (\<lambda>w x. x\<lparr>meetings := w\<rparr>) d2 in
                  case has_key ''draft'' p of
                    Inl e \<Rightarrow> d3
                  | Inr False \<Rightarrow> d3
                  | Inr True \<Rightarrow>
                     (case get_prop p ''draft'' of
                        Inr (Some r) \<Rightarrow> d3\<lparr>draft := r\<rparr>
                      | _ \<Rightarrow> d3)))))"

definition loadFromFile_dbjson :: "storage \<Rightarrow> disk \<Rightarrow> outcome" where
  "loadFromFile_dbjson st dk =
     (case fileHandle st of
        None \<Rightarrow> (Some TypeError, st, dk)
      | Some h \<Rightarrow>
         (case dk h of
            None \<Rightarrow> (Some NotFoundError, st, dk)
          | Some Blank \<Rightarrow> (None, st, dk)
          | Some Malformed \<Rightarrow> (None, st, dk)
          | Some (Json p) \<Rightarrow>
             (case data st of
                None \<Rightarrow> (None, st, dk)
              | Some d \<Rightarrow> (None, st\<lparr>data := Some (overlay_sections p d)\<rparr>, dk))))"

definition connectFolder_dbjson :: "dir_handle option \<Rightarrow> storage \<Rightarrow> disk \<Rightarrow> outcome" where
  "connectFolder_dbjson pick st dk =
     (case pick of
        None \<Rightarrow> (Some AbortError, st, dk)
      | Some d \<Rightarrow>
          (let (h, dk1) = getFileHandle_create d ''db.json'' dk
           in loadFromFile_dbjson (st\<lparr>dirHandle := Some d, fileHandle := Some h\<rparr>) dk1))"

section \<open>Finalizing a draft\<close>

text \<open>
  Modelled from the spec: the finalize operation belongs to the user interface
  (\<open>index.html\<close>), which is not among the sources. The specification describes it as
  the operation that converts the draft into a permanent history record and clears the
  draft: \<open>saveMeeting\<close> of the draft's content, then, when that succeeded,
  \<open>clearDraft\<close>.
\<close>

definition finalize :: "json \<Rightarrow> storage \<Rightarrow> disk \<Rightarrow> outcome" where
  "finalize meeting st dk =
     (case saveMeeting meeting st dk of
        (Some e, st1, dk1) \<Rightarrow> (Some e, st1, dk1)
      | (None, st1, dk1) \<Rightarrow> clearDraft st1 dk1)"


section \<open>Notions used in the statements\<close>

text \<open>\<open>x.id\<close> of a value that is not \<open>null\<close>, and "the same id" as \<open>===\<close> decides it.\<close>

definition id_of :: "json \<Rightarrow> json option" where
  "id_of x = (case get_prop x ''id'' of Inr v \<Rightarrow> v | Inl e \<Rightarrow> None)"

definition same_id :: "json \<Rightarrow> json \<Rightarrow> bool" where
  "same_id a b = strict_eq (id_of a) (id_of b)"

text \<open>
  A valid document: a full settings record (an object with the five fields of the
  template), a list of attendees, a list of meetings, and any draft.
\<close>

definition full_settings :: "json \<Rightarrow> bool" where
  "full_settings v =
     (case v of
        JObj s \<Rightarrow> list_all (\<lambda>k. fmlookup s k \<noteq> None)
                   [''id'', ''dateMode'', ''logoDataUrl'', ''pdfAccentColor'', ''pdfBgColor'']
      | _ \<Rightarrow> False)"

definition valid_document :: "document \<Rightarrow> bool" where
  "valid_document d =
     (full_settings (settings d) \<and> isArray (Some (attendees d)) \<and> isArray (Some (meetings d)))"

text \<open>
  A file the loader does not take for a database: blank, malformed, a root that is
  not an object (a primitive, \<open>null\<close> or an array), or an object with none of the four
  keys.
\<close>

fun unrecognised :: "file_text \<Rightarrow> bool" where
  "unrecognised Blank = True"
| "unrecognised Malformed = True"
| "unrecognised (Json (JObj p)) =
     (fmdom' p \<inter> {''settings'', ''attendees'', ''meetings'', ''draft''} = {})"
| "unrecognised (Json v) = True"

text \<open>An entry whose timestamp the model can order (see \<open>finalizedAt_or_0\<close>).\<close>

definition timestamped :: "json \<Rightarrow> bool" where
  "timestamped x = (case finalizedAt_or_0 x of Inr n \<Rightarrow> True | Inl e \<Rightarrow> False)"


text \<open>What an outcome leaves in a section of the document.\<close>

definition section_after :: "(document \<Rightarrow> json) \<Rightarrow> outcome \<Rightarrow> json option" where
  "section_after sec out = map_option sec (data (fst (snd out)))"

text \<open>
  What an operation that ends in \<open>_save\<close> leaves behind: with no file bound, the
  not-connected error and an untouched disk; with a file bound, no error and a disk
  that differs from the old one in the bound file only, which now holds the
  serialisation of the whole in-memory document.
\<close>

definition persisted :: "storage \<Rightarrow> disk \<Rightarrow> outcome \<Rightarrow> bool" where
  "persisted st dk out =
     (case fileHandle st of
        None \<Rightarrow> fst out = Some NotConnected \<and> snd (snd out) = dk
      | Some h \<Rightarrow> fst out = None \<and> fileHandle (fst (snd out)) = Some h \<and>
                  snd (snd out) = dk(h \<mapsto> Json (stringify (data (fst (snd out))))))"

text \<open>The file behind a handle is missing or unrecognised.\<close>

definition unrecognised_at :: "disk \<Rightarrow> file_handle \<Rightarrow> bool" where
  "unrecognised_at dk h = (case dk h of None \<Rightarrow> True | Some t \<Rightarrow> unrecognised t)"


text \<open>The store is initialised and its meetings are a list.\<close>

definition meetings_listed :: "storage \<Rightarrow> bool" where
  "meetings_listed st = (case data st of None \<Rightarrow> False | Some d \<Rightarrow> isArray (Some (meetings d)))"

subsection \<open>Sample values\<close>

definition no_files :: disk where
  "no_files = (\<lambda>h. None)"

definition meeting_at :: "string \<Rightarrow> int \<Rightarrow> json" where
  "meeting_at i t = JObj (fmap_of_list
     [(''id'', JStr i), (''finalizedAt'', JNum t), (''date'', JStr ''2024-05-01''),
      (''agendaPoints'', JArr []), (''attendees'', JArr [])])"

definition sample_draft :: json where
  "sample_draft = JObj (fmap_of_list
     [(''id'', JStr ''current''), (''date'', JStr ''2024-06-01''),
      (''agendaPoints'', JArr []), (''attendees'', JArr [])])"

definition sample_doc :: document where
  "sample_doc =
     \<lparr> settings = JObj (fmap_of_list
         [(''id'', JStr ''app''), (''dateMode'', JStr ''calendarWeek''), (''logoDataUrl'', JNull),
          (''pdfAccentColor'', JStr ''#112233''), (''pdfBgColor'', JStr ''#ffffff'')]),
       attendees = JArr [JObj (fmap_of_list
         [(''name'', JStr ''Ada''), (''surname'', JStr ''Lovelace''), (''company'', JStr ''AE'')])],
       meetings = JArr [meeting_at ''m5'' 5, meeting_at ''m1'' 1, meeting_at ''m3'' 3],
       draft = sample_draft \<rparr>"

text \<open>A store bound to \<open>minutes.json\<close> of folder 0, and one with a folder but no file.\<close>

definition bound_store :: storage where
  "bound_store = \<lparr> dirHandle = Some 0, fileHandle = Some (0, ''minutes.json''),
                   filename = Some ''minutes.json'', data = Some sample_doc \<rparr>"

definition unbound_store :: storage where
  "unbound_store = \<lparr> dirHandle = Some 0, fileHandle = None, filename = None,
                     data = Some sample_doc \<rparr>"

text \<open>A store that has folder 0 and holds the default document.\<close>

definition fresh_store :: storage where
  "fresh_store = \<lparr> dirHandle = Some 0, fileHandle = None, filename = None,
                   data = Some empty_doc \<rparr>"

text \<open>Folder 0 with two files that are JSON but no database.\<close>

definition foreign_files :: disk where
  "foreign_files = no_files
     ((0, ''minutes.json'') \<mapsto> Json (JObj (fmap_of_list [(''foo'', JNum 1)])),
      (0, ''db.json'') \<mapsto> Json (JArr [JNum 1]))"

text \<open>A meeting without \<open>finalizedAt\<close>, and a history that mixes it with timestamps.\<close>

definition unfinalized :: json where
  "unfinalized = JObj (fmap_of_list [(''id'', JStr ''u'')])"

definition mixed_store :: storage where
  "mixed_store = \<lparr> dirHandle = None, fileHandle = None, filename = None,
     data = Some (sample_doc\<lparr>meetings := JArr
       [unfinalized, meeting_at ''m5'' 5, meeting_at ''m0'' 0, meeting_at ''m3'' 3]\<rparr>) \<rparr>"

text \<open>
  Folder 0 holds a \<open>db.json\<close> with one meeting and a draft; folder 1 is empty.
\<close>

definition two_folders :: disk where
  "two_folders = no_files((0, ''db.json'') \<mapsto> Json (JObj (fmap_of_list
     [(''meetings'', JArr [meeting_at ''m5'' 5]), (''draft'', sample_draft)])))"

text \<open>The file \<open>{"settings":{"dateMode":"calendarWeek"}}\<close>.\<close>

definition partial_settings :: file_text where
  "partial_settings = Json (JObj (fmap_of_list
     [(''settings'', JObj (fmap_of_list [(''dateMode'', JStr ''calendarWeek'')]))]))"



text \<open>The file the store writes for the sample document.\<close>

definition saved_files :: disk where
  "saved_files = no_files((0, ''minutes.json'') \<mapsto> Json (stringify (Some sample_doc)))"

section \<open>Auxiliary facts\<close>

lemma default_settings_lookup:
  "fmlookup default_settings k =
     (if k = ''id'' then Some (JStr ''app'')
      else if k = ''dateMode'' then Some (JStr ''exact'')
      else if k = ''logoDataUrl'' then Some JNull
      else if k = ''pdfAccentColor'' then Some (JStr ''#4b5563'')
      else if k = ''pdfBgColor'' then Some (JStr ''#f3f4f6'')
      else None)"
  by (simp add: default_settings_def fmlookup_of_list)

lemma defaults_under_full:
  assumes "full_settings (JObj s)"
  shows "default_settings ++\<^sub>f s = s"
proof (rule fmap_ext)
  fix k
  from assms show "fmlookup (default_settings ++\<^sub>f s) k = fmlookup s k"
    by (auto simp: full_settings_def default_settings_lookup fmlookup_dom_iff)
qed

lemma properties_lookup:
  "fmlookup (properties D) k =
     (if k = ''settings'' then Some (settings D) else if k = ''attendees'' then Some (attendees D)
      else if k = ''meetings'' then Some (meetings D) else if k = ''draft'' then Some (draft D)
      else None)"
  by (simp add: properties_def fmlookup_of_list)

lemma looksValid_properties: "looksValid (properties D)"
  by (simp add: looksValid_def properties_lookup)

lemma merge_sections_properties:
  assumes "valid_document D"
  shows "merge_sections (properties D) d0 = D"
proof -
  obtain s where s: "settings D = JObj s" and full: "full_settings (JObj s)"
    using assms by (auto simp: valid_document_def full_settings_def split: json.splits)
  obtain as where a: "attendees D = JArr as"
    using assms by (cases "attendees D") (auto simp: valid_document_def)
  obtain ms where m: "meetings D = JArr ms"
    using assms by (cases "meetings D") (auto simp: valid_document_def)
  show ?thesis
    by (simp add: merge_sections_def properties_lookup merge_settings_def merge_attendees_def
        merge_meetings_def merge_draft_def s a m defaults_under_full[OF full])
qed

lemma json_name_minutes: "json_name ''minutes'' = ''minutes.json''"
  by (simp add: json_name_def endsWith_def toLowerCase_def lower_char_def)

lemma valid_sample_doc: "valid_document sample_doc"
  by (simp add: valid_document_def full_settings_def sample_doc_def fmlookup_of_list)

section \<open>The save/load round trip\<close>

text \<open>
  C1. For every valid document \<open>D\<close> (a full settings record, an attendee list, a meeting
  list, any draft) held by a store that is bound to a file: \<open>_save\<close> succeeds, and
  opening the written file from any store that has the folder, whatever document that
  store holds, succeeds, leaves the file as written and yields an in-memory document
  equal to \<open>D\<close>.
\<close>

theorem save_load_roundtrip:
  assumes "valid_document D" and "data st = Some D"
    and "fileHandle st = Some (dir, json_name fname)" and "dirHandle st' = Some dir"
  shows "\<exists>dk1 st2. save st dk = (None, st, dk1) \<and>
           openFile fname st' dk1 = (None, st2, dk1) \<and> data st2 = Some D"
  using assms
  by (simp add: save_def openFile_def getFileHandle_create_def loadFromFile_def stringify_def
      unexpected_root_def looksValid_properties merge_sections_properties Let_def)

theorem save_load_roundtrip_witness:
  "\<exists>dk1 st2. save bound_store no_files = (None, bound_store, dk1) \<and>
     openFile ''minutes'' fresh_store dk1 = (None, st2, dk1) \<and> data st2 = Some sample_doc"
  using save_load_roundtrip [of sample_doc bound_store 0 "''minutes''" fresh_store no_files]
  by (simp add: valid_sample_doc json_name_minutes bound_store_def fresh_store_def)


section \<open>The callbacks on lists without \<open>null\<close>\<close>

lemma get_prop_id_of: "x \<noteq> JNull \<Longrightarrow> get_prop x ''id'' = Inr (id_of x)"
  by (cases x) (simp_all add: id_of_def)

lemma findIndex_id_found:
  assumes "JNull \<notin> set L" and "m \<noteq> JNull"
  shows "(\<exists>i. findIndex_id L m = Inr (Some i) \<and> i < length L \<and> same_id (L ! i) m \<and>
              (\<forall>j<i. \<not> same_id (L ! j) m)) \<or>
         (findIndex_id L m = Inr None \<and> (\<forall>x\<in>set L. \<not> same_id x m))"
  using assms
proof (induction L)
  case Nil
  then show ?case by simp
next
  case (Cons a L)
  then have a: "a \<noteq> JNull" and L: "JNull \<notin> set L" by auto
  show ?case
  proof (cases "same_id a m")
    case True
    then show ?thesis
      using a Cons.prems(2) by (simp add: get_prop_id_of same_id_def)
  next
    case False
    from Cons.IH[OF L Cons.prems(2)] show ?thesis
    proof
      assume "\<exists>i. findIndex_id L m = Inr (Some i) \<and> i < length L \<and> same_id (L ! i) m \<and>
              (\<forall>j<i. \<not> same_id (L ! j) m)"
      then obtain i where i: "findIndex_id L m = Inr (Some i)" "i < length L" "same_id (L ! i) m"
        "\<forall>j<i. \<not> same_id (L ! j) m" by blast
      have "\<forall>j<Suc i. \<not> same_id ((a # L) ! j) m"
        using False i(4) by (auto simp: less_Suc_eq_0_disj)
      then show ?thesis
        using a Cons.prems(2) False i
        by (intro disjI1 exI[of _ "Suc i"]) (simp add: get_prop_id_of same_id_def)
    next
      assume "findIndex_id L m = Inr None \<and> (\<forall>x\<in>set L. \<not> same_id x m)"
      then show ?thesis
        using a Cons.prems(2) False by (simp add: get_prop_id_of same_id_def)
    qed
  qed
qed

lemma filter_not_id_total:
  assumes "JNull \<notin> set L"
  shows "filter_not_id L i = Inr (filter (\<lambda>x. \<not> strict_eq (id_of x) (Some i)) L)"
  using assms by (induction L) (auto simp: get_prop_id_of)

lemma saveMeeting_upsert:
  assumes "data st = Some d" and "meetings d = JArr L" and "JNull \<notin> set L" and "m \<noteq> JNull"
  shows "\<exists>L1. saveMeeting m st dk = save (st\<lparr>data := Some (d\<lparr>meetings := JArr L1\<rparr>)\<rparr>) dk \<and>
           (if \<exists>x\<in>set L. same_id x m
            then \<exists>i<length L. same_id (L ! i) m \<and> (\<forall>j<i. \<not> same_id (L ! j) m) \<and> L1 = L[i := m]
            else L1 = L @ [m])"
  using findIndex_id_found[OF assms(3,4)]
proof
  assume "\<exists>i. findIndex_id L m = Inr (Some i) \<and> i < length L \<and> same_id (L ! i) m \<and>
              (\<forall>j<i. \<not> same_id (L ! j) m)"
  then obtain i where i: "findIndex_id L m = Inr (Some i)" "i < length L" "same_id (L ! i) m"
        "\<forall>j<i. \<not> same_id (L ! j) m" by blast
  have ex: "\<exists>x\<in>set L. same_id x m" using i(2,3) nth_mem by blast
  show ?thesis
    using i ex by (intro exI[of _ "L[i := m]"]) (auto simp: saveMeeting_def assms(1,2))
next
  assume n: "findIndex_id L m = Inr None \<and> (\<forall>x\<in>set L. \<not> same_id x m)"
  then show ?thesis
    by (intro exI[of _ "L @ [m]"]) (simp add: saveMeeting_def assms(1,2))
qed

lemma deleteMeeting_filter:
  assumes "data st = Some d" and "meetings d = JArr L" and "JNull \<notin> set L"
  shows "deleteMeeting i st dk =
           save (st\<lparr>data := Some (d\<lparr>meetings := JArr (filter (\<lambda>x. \<not> strict_eq (id_of x) (Some i)) L)\<rparr>)\<rparr>) dk"
  by (simp add: deleteMeeting_def assms filter_not_id_total)

lemma save_keeps_store: "fst (snd (save st dk)) = st"
  by (simp add: save_def split: option.splits)

lemma section_after_save: "section_after sec (save st dk) = map_option sec (data st)"
  by (simp add: section_after_def save_keeps_store)

section \<open>Meetings: upsert and delete\<close>

text \<open>
  C5. For a meeting \<open>m\<close> and a meeting list \<open>L\<close> (no entry and no argument is
  \<open>null\<close>): after \<open>saveMeeting(m)\<close> the list is \<open>L\<close> with \<open>m\<close> in the place of the
  first entry that has the same id, when there is one, and \<open>L\<close> with \<open>m\<close> appended at
  the end otherwise; after \<open>deleteMeeting(i)\<close> the list is \<open>L\<close> without the entries
  whose id is \<open>i\<close>, the others in their order. This is what the in-memory list holds
  whether or not a file is bound.
\<close>

theorem meeting_upsert_and_delete:
  assumes "data st = Some d" and "meetings d = JArr L" and "JNull \<notin> set L" and "m \<noteq> JNull"
  shows "(\<exists>L1. section_after meetings (saveMeeting m st dk) = Some (JArr L1) \<and>
            (if \<exists>x\<in>set L. same_id x m
             then \<exists>i<length L. same_id (L ! i) m \<and> (\<forall>j<i. \<not> same_id (L ! j) m) \<and> L1 = L[i := m]
             else L1 = L @ [m])) \<and>
         section_after meetings (deleteMeeting i st dk) =
           Some (JArr (filter (\<lambda>x. \<not> strict_eq (id_of x) (Some i)) L))"
proof -
  obtain L1 where L1: "saveMeeting m st dk = save (st\<lparr>data := Some (d\<lparr>meetings := JArr L1\<rparr>)\<rparr>) dk"
     "if \<exists>x\<in>set L. same_id x m
            then \<exists>i<length L. same_id (L ! i) m \<and> (\<forall>j<i. \<not> same_id (L ! j) m) \<and> L1 = L[i := m]
            else L1 = L @ [m]"
    using saveMeeting_upsert[OF assms] by blast
  have "section_after meetings (saveMeeting m st dk) = Some (JArr L1)"
    by (simp add: L1(1) section_after_save)
  moreover have "section_after meetings (deleteMeeting i st dk) =
           Some (JArr (filter (\<lambda>x. \<not> strict_eq (id_of x) (Some i)) L))"
    by (simp add: deleteMeeting_filter[OF assms(1,2,3)] section_after_save)
  ultimately show ?thesis using L1(2) by blast
qed

lemma meeting_at_id: "id_of (meeting_at i t) = Some (JStr i)"
  by (simp add: id_of_def meeting_at_def fmlookup_of_list)

theorem meeting_upsert_and_delete_witness:
  "section_after meetings (saveMeeting (meeting_at ''m1'' 7) bound_store no_files) =
     Some (JArr [meeting_at ''m5'' 5, meeting_at ''m1'' 7, meeting_at ''m3'' 3]) \<and>
   section_after meetings (saveMeeting (meeting_at ''m9'' 9) bound_store no_files) =
     Some (JArr [meeting_at ''m5'' 5, meeting_at ''m1'' 1, meeting_at ''m3'' 3, meeting_at ''m9'' 9]) \<and>
   section_after meetings (deleteMeeting (JStr ''m1'') bound_store no_files) =
     Some (JArr [meeting_at ''m5'' 5, meeting_at ''m3'' 3])"
proof -
  let ?L = "[meeting_at ''m5'' 5, meeting_at ''m1'' 1, meeting_at ''m3'' 3]"
  have d: "data bound_store = Some sample_doc" by (simp add: bound_store_def)
  have L: "meetings sample_doc = JArr ?L" by (simp add: sample_doc_def)
  have n: "JNull \<notin> set ?L" by (simp add: meeting_at_def)
  have m: "meeting_at i t \<noteq> JNull" for i t by (simp add: meeting_at_def)
  note th = meeting_upsert_and_delete[OF d L n m]
  have del: "section_after meetings (deleteMeeting (JStr ''m1'') bound_store no_files) =
     Some (JArr [meeting_at ''m5'' 5, meeting_at ''m3'' 3])"
    using th[of "''m1''" 7 no_files "JStr ''m1''"] by (simp add: meeting_at_id)
  from th[of "''m9''" 9 no_files JNull]
  have app: "section_after meetings (saveMeeting (meeting_at ''m9'' 9) bound_store no_files) =
     Some (JArr (?L @ [meeting_at ''m9'' 9]))"
    by (simp add: meeting_at_id same_id_def)
  from th[of "''m1''" 7 no_files JNull]
  obtain L1 i where r: "section_after meetings (saveMeeting (meeting_at ''m1'' 7) bound_store no_files) = Some (JArr L1)"
    "i < length ?L" "same_id (?L ! i) (meeting_at ''m1'' 7)" "L1 = ?L[i := meeting_at ''m1'' 7]"
    by (auto simp: meeting_at_id same_id_def)
  have "i = 1" using r(2,3) by (auto simp: less_Suc_eq meeting_at_id same_id_def numeral_3_eq_3)
  then have "L1 = [meeting_at ''m5'' 5, meeting_at ''m1'' 7, meeting_at ''m3'' 3]"
    using r(4) by simp
  with r(1) del app show ?thesis by simp
qed

lemma persisted_save: "fileHandle st1 = fileHandle st \<Longrightarrow> persisted st dk (save st1 dk)"
  by (simp add: persisted_def save_def split: option.splits)

lemma section_after_triple: "section_after sec (e, st, dk) = map_option sec (data st)"
  by (simp add: section_after_def)

lemma sample_meetings: "meetings sample_doc = JArr [meeting_at ''m5'' 5, meeting_at ''m1'' 1, meeting_at ''m3'' 3]"
  by (simp add: sample_doc_def)

lemma sample_meetings_no_null: "JNull \<notin> set [meeting_at ''m5'' 5, meeting_at ''m1'' 1, meeting_at ''m3'' 3]"
  by (simp add: meeting_at_def)

lemma meeting_at_not_null: "meeting_at i t \<noteq> JNull"
  by (simp add: meeting_at_def)

section \<open>The meetings of the multi-file store are a list\<close>

text \<open>
  \<open>init\<close> and \<open>openFile\<close> leave a list in \<open>meetings\<close> (the loader takes the file's
  value only when it is an array), and the section operations keep one.
\<close>

lemma isArray_listed: "isArray (Some v) \<longleftrightarrow> (\<exists>xs. v = JArr xs)"
  by (cases v) simp_all

lemma meetings_listed_init: "meetings_listed (init st)"
  by (simp add: meetings_listed_def init_def empty_doc_def)

lemma meetings_listed_openFile:
  assumes "dirHandle st = Some dir"
  shows "meetings_listed (fst (snd (openFile fname st dk)))"
  using assms
  by (simp add: openFile_def getFileHandle_create_def loadFromFile_def Let_def meetings_listed_def
      empty_doc_def merge_sections_def merge_draft_def merge_meetings_def merge_attendees_def
      merge_settings_def isArray_listed
      split: option.splits file_text.splits json.splits)

lemma meetings_listed_operations:
  assumes "meetings_listed st"
  shows "meetings_listed (fst (snd (saveDraft x st dk)))"
    and "meetings_listed (fst (snd (clearDraft st dk)))"
    and "meetings_listed (fst (snd (saveMeeting m st dk)))"
    and "meetings_listed (fst (snd (deleteMeeting i st dk)))"
    and "meetings_listed (fst (snd (saveSettings s st dk)))"
    and "meetings_listed (fst (snd (saveAttendees a st dk)))"
  using assms
  by (auto simp: meetings_listed_def saveDraft_def clearDraft_def saveMeeting_def deleteMeeting_def
      saveSettings_def saveAttendees_def save_keeps_store
      split: option.splits json.splits sum.splits)

lemma frame_saveDraft:
  assumes "\<And>d v. sec (d\<lparr>draft := v\<rparr>) = sec d"
  shows "section_after sec (saveDraft x st dk) = map_option sec (data st)"
  using assms
  by (simp add: saveDraft_def section_after_save section_after_triple split: option.splits)

lemma frame_clearDraft:
  assumes "\<And>d v. sec (d\<lparr>draft := v\<rparr>) = sec d"
  shows "section_after sec (clearDraft st dk) = map_option sec (data st)"
  using assms
  by (simp add: clearDraft_def section_after_save section_after_triple split: option.splits)

lemma frame_saveMeeting:
  assumes "\<And>d v. sec (d\<lparr>meetings := v\<rparr>) = sec d"
  shows "section_after sec (saveMeeting m st dk) = map_option sec (data st)"
  using assms
  by (simp add: saveMeeting_def section_after_save section_after_triple
      split: option.splits json.splits sum.splits)

lemma frame_deleteMeeting:
  assumes "\<And>d v. sec (d\<lparr>meetings := v\<rparr>) = sec d"
  shows "section_after sec (deleteMeeting i st dk) = map_option sec (data st)"
  using assms
  by (simp add: deleteMeeting_def section_after_save section_after_triple
      split: option.splits json.splits sum.splits)

lemma frame_saveSettings:
  assumes "\<And>d v. sec (d\<lparr>settings := v\<rparr>) = sec d"
  shows "section_after sec (saveSettings s st dk) = map_option sec (data st)"
  using assms
  by (simp add: saveSettings_def section_after_save section_after_triple split: option.splits)

lemma frame_saveAttendees:
  assumes "\<And>d v. sec (d\<lparr>attendees := v\<rparr>) = sec d"
  shows "section_after sec (saveAttendees a st dk) = map_option sec (data st)"
  using assms
  by (simp add: saveAttendees_def section_after_save section_after_triple split: option.splits)

section \<open>Frame of the section operations\<close>

text \<open>
  C10. Every section operation leaves the other three sections of the in-memory
  document as they were, whether it succeeds or fails: \<open>saveDraft\<close> and \<open>clearDraft\<close>
  touch only the draft, \<open>saveMeeting\<close> and \<open>deleteMeeting\<close> only the meetings,
  \<open>saveSettings\<close> only the settings, \<open>saveAttendees\<close> only the attendees.
\<close>

theorem section_operations_frame:
  "section_after settings (saveDraft x st dk) = map_option settings (data st) \<and>
   section_after attendees (saveDraft x st dk) = map_option attendees (data st) \<and>
   section_after meetings (saveDraft x st dk) = map_option meetings (data st) \<and>
   section_after settings (clearDraft st dk) = map_option settings (data st) \<and>
   section_after attendees (clearDraft st dk) = map_option attendees (data st) \<and>
   section_after meetings (clearDraft st dk) = map_option meetings (data st) \<and>
   section_after settings (saveMeeting m st dk) = map_option settings (data st) \<and>
   section_after attendees (saveMeeting m st dk) = map_option attendees (data st) \<and>
   section_after draft (saveMeeting m st dk) = map_option draft (data st) \<and>
   section_after settings (deleteMeeting i st dk) = map_option settings (data st) \<and>
   section_after attendees (deleteMeeting i st dk) = map_option attendees (data st) \<and>
   section_after draft (deleteMeeting i st dk) = map_option draft (data st) \<and>
   section_after attendees (saveSettings s st dk) = map_option attendees (data st) \<and>
   section_after meetings (saveSettings s st dk) = map_option meetings (data st) \<and>
   section_after draft (saveSettings s st dk) = map_option draft (data st) \<and>
   section_after settings (saveAttendees a st dk) = map_option settings (data st) \<and>
   section_after meetings (saveAttendees a st dk) = map_option meetings (data st) \<and>
   section_after draft (saveAttendees a st dk) = map_option draft (data st)"
  by (simp add: frame_saveDraft frame_clearDraft frame_saveMeeting frame_deleteMeeting
      frame_saveSettings frame_saveAttendees)

section \<open>Saving needs a bound file\<close>

lemma unbound_operations_fail:
  assumes "fileHandle st = None"
  shows "fst (saveDraft x st dk) \<noteq> None \<and> snd (snd (saveDraft x st dk)) = dk"
    and "fst (clearDraft st dk) \<noteq> None \<and> snd (snd (clearDraft st dk)) = dk"
    and "fst (saveMeeting m st dk) \<noteq> None \<and> snd (snd (saveMeeting m st dk)) = dk"
    and "fst (deleteMeeting i st dk) \<noteq> None \<and> snd (snd (deleteMeeting i st dk)) = dk"
    and "fst (saveSettings s st dk) \<noteq> None \<and> snd (snd (saveSettings s st dk)) = dk"
    and "fst (saveAttendees a st dk) \<noteq> None \<and> snd (snd (saveAttendees a st dk)) = dk"
  using assms
  by (simp_all add: saveDraft_def clearDraft_def saveMeeting_def deleteMeeting_def
      saveSettings_def saveAttendees_def save_def
      split: option.splits json.splits sum.splits)

text \<open>
  C8. With no file bound, each of the six mutating operations fails and writes
  nothing; on an initialised store the failure is the not-connected error. With a
  file bound, the operation succeeds, and the disk afterwards differs from the disk
  before only in the bound file, which holds the serialisation of the entire
  in-memory document. The second and third sentence hold of \<open>saveDraft\<close>,
  \<open>clearDraft\<close>, \<open>saveSettings\<close> and \<open>saveAttendees\<close> as they are, and of
  \<open>deleteMeeting\<close> and \<open>saveMeeting\<close> when the meetings are a list without \<open>null\<close>
  (and the meeting saved is not \<open>null\<close>), where their callbacks do not throw.
\<close>

theorem mutations_need_bound_file:
  "(fileHandle st = None \<longrightarrow>
      fst (saveDraft x st dk) \<noteq> None \<and> snd (snd (saveDraft x st dk)) = dk \<and>
      fst (clearDraft st dk) \<noteq> None \<and> snd (snd (clearDraft st dk)) = dk \<and>
      fst (saveMeeting m st dk) \<noteq> None \<and> snd (snd (saveMeeting m st dk)) = dk \<and>
      fst (deleteMeeting i st dk) \<noteq> None \<and> snd (snd (deleteMeeting i st dk)) = dk \<and>
      fst (saveSettings s st dk) \<noteq> None \<and> snd (snd (saveSettings s st dk)) = dk \<and>
      fst (saveAttendees a st dk) \<noteq> None \<and> snd (snd (saveAttendees a st dk)) = dk) \<and>
   (data st = Some d \<longrightarrow>
      persisted st dk (saveDraft x st dk) \<and> persisted st dk (clearDraft st dk) \<and>
      persisted st dk (saveSettings s st dk) \<and> persisted st dk (saveAttendees a st dk) \<and>
      (meetings d = JArr L \<and> JNull \<notin> set L \<longrightarrow>
         persisted st dk (deleteMeeting i st dk) \<and>
         (m \<noteq> JNull \<longrightarrow> persisted st dk (saveMeeting m st dk))))"
proof -
  have P: "persisted st dk (saveDraft x st dk) \<and> persisted st dk (clearDraft st dk) \<and>
      persisted st dk (saveSettings s st dk) \<and> persisted st dk (saveAttendees a st dk) \<and>
      (meetings d = JArr L \<and> JNull \<notin> set L \<longrightarrow>
         persisted st dk (deleteMeeting i st dk) \<and>
         (m \<noteq> JNull \<longrightarrow> persisted st dk (saveMeeting m st dk)))"
    if d: "data st = Some d"
  proof -
    have "persisted st dk (saveMeeting m st dk)"
      if h: "meetings d = JArr L" "JNull \<notin> set L" "m \<noteq> JNull"
    proof -
      obtain L1 where "saveMeeting m st dk = save (st\<lparr>data := Some (d\<lparr>meetings := JArr L1\<rparr>)\<rparr>) dk"
        using saveMeeting_upsert[OF d h] by blast
      then show ?thesis by (simp add: persisted_save)
    qed
    moreover have "persisted st dk (deleteMeeting i st dk)"
      if "meetings d = JArr L" "JNull \<notin> set L"
      by (simp add: deleteMeeting_filter[OF d that] persisted_save)
    moreover have "persisted st dk (saveDraft x st dk)" "persisted st dk (clearDraft st dk)"
      "persisted st dk (saveSettings s st dk)" "persisted st dk (saveAttendees a st dk)"
      by (simp_all add: saveDraft_def clearDraft_def saveSettings_def saveAttendees_def d
          persisted_save)
    ultimately show ?thesis by simp
  qed
  show ?thesis
    using P unbound_operations_fail[of st] by blast
qed

theorem mutations_need_bound_file_witness:
  "fst (saveDraft sample_draft unbound_store no_files) = Some NotConnected \<and>
   fst (clearDraft unbound_store no_files) = Some NotConnected \<and>
   fst (saveMeeting (meeting_at ''m9'' 9) unbound_store no_files) = Some NotConnected \<and>
   fst (deleteMeeting (JStr ''m1'') unbound_store no_files) = Some NotConnected \<and>
   fst (saveSettings (JObj fmempty) unbound_store no_files) = Some NotConnected \<and>
   fst (saveAttendees (JArr []) unbound_store no_files) = Some NotConnected \<and>
   fst (saveMeeting (meeting_at ''m9'' 9) bound_store no_files) = None \<and>
   snd (snd (saveMeeting (meeting_at ''m9'' 9) bound_store no_files)) (0, ''minutes.json'') =
     Some (Json (stringify (data (fst (snd (saveMeeting (meeting_at ''m9'' 9) bound_store no_files))))))"
proof -
  have u: "data unbound_store = Some sample_doc" and b: "data bound_store = Some sample_doc"
    by (simp_all add: unbound_store_def bound_store_def)
  note U = mutations_need_bound_file[where st = unbound_store and d = sample_doc and dk = no_files
      and x = sample_draft and s = "JObj fmempty" and a = "JArr []" and i = "JStr ''m1''"
      and m = "meeting_at ''m9'' 9"
      and L = "[meeting_at ''m5'' 5, meeting_at ''m1'' 1, meeting_at ''m3'' 3]"]
  note B = mutations_need_bound_file[where st = bound_store and d = sample_doc and dk = no_files
      and x = sample_draft and s = "JObj fmempty" and a = "JArr []" and i = "JStr ''m1''"
      and m = "meeting_at ''m9'' 9"
      and L = "[meeting_at ''m5'' 5, meeting_at ''m1'' 1, meeting_at ''m3'' 3]"]
  have "fileHandle unbound_store = None" "fileHandle bound_store = Some (0, ''minutes.json'')"
    by (simp_all add: unbound_store_def bound_store_def)
  with U B u b sample_meetings sample_meetings_no_null meeting_at_not_null show ?thesis
    by (simp add: persisted_def)
qed

text \<open>The assignment of a failed operation stays in memory.\<close>

lemma failed_save_keeps_assignment:
  assumes "data st = Some d" and "fileHandle st = None"
  shows "saveDraft x st dk =
           (Some NotConnected,
            st\<lparr>data := Some (d\<lparr>draft := JObj (fmupd ''id'' (JStr ''current'') (spread x))\<rparr>)\<rparr>, dk)"
  using assms by (simp add: saveDraft_def save_def)

section \<open>Finalizing: auxiliary facts\<close>

lemma findIndex_id_in_range: "findIndex_id L m = Inr (Some i) \<Longrightarrow> i < length L"
proof (induction L arbitrary: i)
  case Nil
  then show ?case by simp
next
  case (Cons a L)
  then show ?case
    by (auto split: sum.splits if_splits option.splits)
qed

lemma saveMeeting_success:
  assumes "saveMeeting m st dk = (None, st1, dk1)"
  shows "\<exists>d L1 h. data st1 = Some d \<and> meetings d = JArr L1 \<and> m \<in> set L1 \<and>
           fileHandle st1 = Some h"
  using assms
  by (auto simp: saveMeeting_def save_def findIndex_id_in_range set_update_memI
      split: option.splits json.splits sum.splits)

lemma finalize_success:
  assumes "finalize m st dk = (None, st1, dk1)"
  shows "\<exists>d L1. data st1 = Some d \<and> draft d = JNull \<and> meetings d = JArr L1 \<and> m \<in> set L1"
proof -
  obtain st0 dk0 where s: "saveMeeting m st dk = (None, st0, dk0)" and c: "clearDraft st0 dk0 = (None, st1, dk1)"
    using assms by (auto simp: finalize_def split: prod.splits option.splits)
  from saveMeeting_success[OF s] obtain d L1 h where
    d: "data st0 = Some d" "meetings d = JArr L1" "m \<in> set L1" "fileHandle st0 = Some h" by blast
  from c d show ?thesis
    by (auto simp: clearDraft_def save_def)
qed

lemma filter_not_id_subset: "filter_not_id L i = Inr r \<Longrightarrow> set r \<subseteq> set L"
proof (induction L arbitrary: r)
  case Nil
  then show ?case by simp
next
  case (Cons a L)
  then show ?case
    by (auto split: sum.splits if_splits)
qed

lemma deleteMeeting_adds_nothing:
  assumes "data st = Some d" and "meetings d = JArr L"
  shows "\<exists>L2. section_after meetings (deleteMeeting i st dk) = Some (JArr L2) \<and> set L2 \<subseteq> set L"
proof (cases "filter_not_id L i")
  case (Inl e)
  then show ?thesis
    by (simp add: deleteMeeting_def assms section_after_triple)
next
  case (Inr r)
  then show ?thesis
    using filter_not_id_subset[OF Inr]
    by (simp add: deleteMeeting_def assms section_after_save)
qed

section \<open>Files that are not a database\<close>

lemma unexpected_root_iff: "unexpected_root v \<longleftrightarrow> (\<forall>p. v \<noteq> JObj p)"
  by (cases v) (simp_all add: unexpected_root_def)

lemma looksValid_iff:
  "looksValid p \<longleftrightarrow>
     (''settings'' \<in> fmdom' p \<or> ''meetings'' \<in> fmdom' p \<or> ''attendees'' \<in> fmdom' p \<or>
      ''draft'' \<in> fmdom' p)"
  by (auto simp: looksValid_def fmlookup_dom'_iff)

lemma loadFromFile_unrecognised:
  assumes "fileHandle st = Some h" and "dk h = Some t" and "unrecognised t"
  shows "loadFromFile st dk = (None, st, dk)"
proof (cases t)
  case (Json v)
  then show ?thesis
    using assms by (cases v) (simp_all add: loadFromFile_def unexpected_root_def looksValid_iff)
qed (use assms in \<open>simp_all add: loadFromFile_def\<close>)

lemma overlay_sections_unrecognised:
  assumes "unrecognised (Json v)"
  shows "overlay_sections v d = d"
proof (cases v)
  case (JObj p)
  then have "fmlookup p ''settings'' = None" "fmlookup p ''attendees'' = None"
    "fmlookup p ''meetings'' = None" "fmlookup p ''draft'' = None"
    using assms by (simp_all add: fmlookup_dom'_iff)
  then show ?thesis
    by (simp add: overlay_sections_def overlay_def JObj)
qed (simp_all add: overlay_sections_def overlay_def)

lemma loadFromFile_dbjson_unrecognised:
  assumes "fileHandle st = Some h" and "dk h = Some t" and "unrecognised t"
  shows "loadFromFile_dbjson st dk = (None, st, dk)"
proof (cases t)
  case (Json v)
  then show ?thesis
    using assms by (simp add: loadFromFile_dbjson_def overlay_sections_unrecognised split: option.splits)
qed (use assms in \<open>simp_all add: loadFromFile_dbjson_def\<close>)

lemma openFile_never_fails:
  assumes "dirHandle st = Some dir"
  shows "fst (openFile fname st dk) = None"
  using assms
  by (simp add: openFile_def getFileHandle_create_def loadFromFile_def Let_def
      split: option.splits file_text.splits json.splits)

lemma connectFolder_dbjson_never_fails: "fst (connectFolder_dbjson (Some dir) st dk) = None"
  by (simp add: connectFolder_dbjson_def getFileHandle_create_def loadFromFile_dbjson_def
      split: option.splits file_text.splits)

text \<open>
  C3. Binding never fails on account of the file's content: \<open>openFile\<close> on a store
  with a folder, and \<open>connectFolder\<close> of the single-file store once the folder is
  picked, return without error whatever the file holds. When the file is new, blank,
  malformed, not an object at its root, or an object with none of the four keys,
  \<open>openFile\<close> leaves the default document in memory and the single-file
  \<open>connectFolder\<close> leaves the document it had (the default one on a fresh store).
\<close>

theorem unrecognised_file_keeps_defaults:
  "(dirHandle st = Some dir \<longrightarrow> fst (openFile fname st dk) = None) \<and>
   (dirHandle st = Some dir \<and> unrecognised_at dk (dir, json_name fname) \<longrightarrow>
      (\<exists>st1 dk1. openFile fname st dk = (None, st1, dk1) \<and> data st1 = Some empty_doc \<and>
         fileHandle st1 = Some (dir, json_name fname))) \<and>
   fst (connectFolder_dbjson (Some dir) st dk) = None \<and>
   (unrecognised_at dk (dir, ''db.json'') \<longrightarrow>
      (\<exists>st1 dk1. connectFolder_dbjson (Some dir) st dk = (None, st1, dk1) \<and> data st1 = data st \<and>
         fileHandle st1 = Some (dir, ''db.json'')))"
proof -
  have open_part: "\<exists>st1 dk1. openFile fname st dk = (None, st1, dk1) \<and> data st1 = Some empty_doc \<and>
         fileHandle st1 = Some (dir, json_name fname)"
    if d: "dirHandle st = Some dir" and u: "unrecognised_at dk (dir, json_name fname)"
  proof (cases "dk (dir, json_name fname)")
    case None
    then show ?thesis
      using d by (simp add: openFile_def getFileHandle_create_def loadFromFile_def Let_def)
  next
    case (Some t)
    then have "unrecognised t" using u by (simp add: unrecognised_at_def)
    then show ?thesis
      using d Some
      by (simp add: openFile_def getFileHandle_create_def Let_def
          loadFromFile_unrecognised[where t = t])
  qed
  have db_part: "\<exists>st1 dk1. connectFolder_dbjson (Some dir) st dk = (None, st1, dk1) \<and> data st1 = data st \<and>
         fileHandle st1 = Some (dir, ''db.json'')"
    if u: "unrecognised_at dk (dir, ''db.json'')"
  proof (cases "dk (dir, ''db.json'')")
    case None
    then show ?thesis
      by (simp add: connectFolder_dbjson_def getFileHandle_create_def loadFromFile_dbjson_def)
  next
    case (Some t)
    then have "unrecognised t" using u by (simp add: unrecognised_at_def)
    then show ?thesis
      using Some
      by (simp add: connectFolder_dbjson_def getFileHandle_create_def
          loadFromFile_dbjson_unrecognised[where t = t])
  qed
  show ?thesis
    using open_part db_part openFile_never_fails connectFolder_dbjson_never_fails by blast
qed


theorem unrecognised_file_keeps_defaults_witness:
  "(\<exists>st1 dk1. openFile ''minutes'' bound_store foreign_files = (None, st1, dk1) \<and>
      data st1 = Some empty_doc \<and> fileHandle st1 = Some (0, ''minutes.json'')) \<and>
   (\<exists>st1 dk1. connectFolder_dbjson (Some 0) bound_store foreign_files = (None, st1, dk1) \<and>
      data st1 = data bound_store \<and> fileHandle st1 = Some (0, ''db.json''))"
proof -
  have "dirHandle bound_store = Some 0" by (simp add: bound_store_def)
  moreover have "unrecognised_at foreign_files (0, json_name ''minutes'')"
    by (simp add: unrecognised_at_def foreign_files_def json_name_minutes)
  moreover have "unrecognised_at foreign_files (0, ''db.json'')"
    by (simp add: unrecognised_at_def foreign_files_def)
  ultimately show ?thesis
    using unrecognised_file_keeps_defaults [of bound_store 0 "''minutes''" foreign_files]
    by (simp add: json_name_minutes)
qed

section \<open>Listing the meetings by timestamp\<close>

lemma timestamped_not_null: "timestamped x \<Longrightarrow> x \<noteq> JNull"
  by (auto simp: timestamped_def finalizedAt_or_0_def)

lemma timestamped_key: "timestamped x \<Longrightarrow> finalizedAt_or_0 x = Inr (timestamp x)"
  by (simp add: timestamped_def timestamp_def split: sum.splits)

lemma sort_finalizedAt_timestamped:
  assumes "list_all timestamped L"
  shows "sort_finalizedAt L = Inr (sort_key (\<lambda>x. - timestamp x) L)"
proof (cases "length L < 2")
  case True
  then have "L = [] \<or> (\<exists>x. L = [x])"
    by (cases L) (auto simp: length_Suc_conv)
  then show ?thesis using True by (auto simp: sort_finalizedAt_def)
next
  case False
  have "JNull \<notin> set L"
    using assms timestamped_not_null by (auto simp: list_all_iff)
  moreover have "Inl Unmodelled \<notin> set (map finalizedAt_or_0 L)"
    using assms timestamped_key by (fastforce simp: list_all_iff)
  ultimately show ?thesis using False by (simp add: sort_finalizedAt_def)
qed

lemma timestamp_meeting_at: "timestamp (meeting_at i t) = (if t = 0 then 0 else t)"
  by (simp add: timestamp_def finalizedAt_or_0_def meeting_at_def fmlookup_of_list)

lemma timestamped_meeting_at: "timestamped (meeting_at i t)"
  by (simp add: timestamped_def finalizedAt_or_0_def meeting_at_def fmlookup_of_list)

lemma timestamped_unfinalized: "timestamped unfinalized"
  by (simp add: timestamped_def finalizedAt_or_0_def unfinalized_def fmlookup_of_list)

lemma timestamp_unfinalized: "timestamp unfinalized = 0"
  by (simp add: timestamp_def finalizedAt_or_0_def unfinalized_def fmlookup_of_list)



lemma getAllMeetings_mixed:
  "fst (getAllMeetings mixed_store) =
     Inr [meeting_at ''m5'' 5, meeting_at ''m3'' 3, unfinalized,
          meeting_at ''m0'' 0]"
proof -
  have t: "list_all timestamped [unfinalized, meeting_at ''m5'' 5,
                    meeting_at ''m0'' 0, meeting_at ''m3'' 3]"
    by (simp add: timestamped_meeting_at timestamped_unfinalized)
  show ?thesis
    using t by (simp add: getAllMeetings_def mixed_store_def sort_finalizedAt_timestamped
        timestamp_meeting_at timestamp_unfinalized del: list.pred_inject)
qed

section \<open>Binding resets the document\<close>

text \<open>
  \<open>openFile\<close> of the multi-file store assigns \<open>_empty()\<close> to \<open>_data\<close> before it
  loads: the document it leaves does not depend on the document the store held.
\<close>

lemma connectFolder_unbinds:
  "connectFolder (Some d) st = (e, st1) \<Longrightarrow>
     e = None \<and> dirHandle st1 = Some d \<and> fileHandle st1 = None \<and> data st1 = data st"
  by (auto simp: connectFolder_def)

lemma openFile_discards_document:
  "dirHandle st = Some dir \<Longrightarrow> openFile fname (st\<lparr>data := x\<rparr>) dk = openFile fname st dk"
  by (simp add: openFile_def Let_def split: prod.splits)

lemma openFile_document_from_file:
  assumes "dirHandle st = Some dir" and "dirHandle st' = Some dir"
  shows "data (fst (snd (openFile fname st dk))) = data (fst (snd (openFile fname st' dk)))"
  using assms
  by (simp add: openFile_def getFileHandle_create_def loadFromFile_def Let_def
      split: option.splits file_text.splits json.splits)

text \<open>
  C2. The claim is that a bind first resets the in-memory document, so that the
  document after the bind depends on the new file only. \<open>connectFolder\<close> of the
  single-file store (storage.js) has no such reset: after folder 0, whose \<open>db.json\<close>
  holds one meeting and a draft, binding the empty folder 1 leaves that meeting and
  that draft in memory, where a fresh store bound to folder 1 holds the default
  document.
\<close>

theorem connectFolder_dbjson_keeps_previous_document:
  "section_after meetings
     (connectFolder_dbjson (Some 1)
        (fst (snd (connectFolder_dbjson (Some 0) initial_dbjson two_folders))) two_folders) =
     Some (JArr [meeting_at ''m5'' 5]) \<and>
   section_after draft
     (connectFolder_dbjson (Some 1)
        (fst (snd (connectFolder_dbjson (Some 0) initial_dbjson two_folders))) two_folders) =
     Some sample_draft \<and>
   section_after meetings (connectFolder_dbjson (Some 1) initial_dbjson two_folders) = Some (JArr []) \<and>
   section_after draft (connectFolder_dbjson (Some 1) initial_dbjson two_folders) = Some JNull"
  by (simp add: connectFolder_dbjson_def getFileHandle_create_def loadFromFile_dbjson_def
      two_folders_def no_files_def initial_dbjson_def empty_doc_def section_after_def
      overlay_sections_def overlay_def fmlookup_of_list)

section \<open>Merging the sections of a recognised file\<close>

text \<open>
  \<open>_loadFromFile\<close> of the multi-file store on an object with one of the four keys:
  the settings are the defaults overridden by the file's settings when these are an
  object (an array overrides under its indices), the attendees and the meetings are
  the file's when they are lists and empty otherwise, and the draft is the file's
  whenever the key is there, \<open>null\<close> included.
\<close>

lemma openFile_recognised:
  assumes "dirHandle st = Some dir" and "dk (dir, json_name fname) = Some (Json (JObj p))"
    and "looksValid p"
  shows "openFile fname st dk =
           (None, st\<lparr>data := Some (merge_sections p empty_doc), filename := Some (json_name fname),
                      fileHandle := Some (dir, json_name fname)\<rparr>, dk)"
  using assms
  by (simp add: openFile_def getFileHandle_create_def loadFromFile_def Let_def unexpected_root_def)

lemma openFile_merges_sections:
  assumes "dirHandle st = Some dir" and "dk (dir, json_name fname) = Some (Json (JObj p))"
    and "looksValid p"
  shows "section_after settings (openFile fname st dk) =
           Some (case fmlookup p ''settings'' of
                   Some (JObj s) \<Rightarrow> JObj (default_settings ++\<^sub>f s)
                 | Some (JArr xs) \<Rightarrow> JObj (default_settings ++\<^sub>f indexed xs)
                 | _ \<Rightarrow> JObj default_settings) \<and>
         section_after attendees (openFile fname st dk) =
           Some (case fmlookup p ''attendees'' of Some (JArr xs) \<Rightarrow> JArr xs | _ \<Rightarrow> JArr []) \<and>
         section_after meetings (openFile fname st dk) =
           Some (case fmlookup p ''meetings'' of Some (JArr xs) \<Rightarrow> JArr xs | _ \<Rightarrow> JArr []) \<and>
         section_after draft (openFile fname st dk) =
           Some (case fmlookup p ''draft'' of Some r \<Rightarrow> r | None \<Rightarrow> JNull)"
proof -
  have "openFile fname st dk =
           (None, st\<lparr>data := Some (merge_sections p empty_doc), filename := Some (json_name fname),
                      fileHandle := Some (dir, json_name fname)\<rparr>, dk)"
    using assms by (rule openFile_recognised)
  then show ?thesis
    by (simp add: section_after_triple merge_sections_def
      merge_settings_def merge_attendees_def merge_meetings_def merge_draft_def empty_doc_def
      split: option.splits json.splits)
qed

text \<open>
  C4. The claim is that a load merges the file's settings over the defaults, field by
  field. \<open>_loadFromFile\<close> of the single-file store (storage.js) assigns the file's
  settings as they are: from \<open>{"settings":{"dateMode":"calendarWeek"}}\<close> it leaves a
  settings object with the single field \<open>dateMode\<close>, where the multi-file store
  leaves the five fields.
\<close>

theorem loadFromFile_dbjson_drops_defaults:
  "section_after settings
     (connectFolder_dbjson (Some 0) initial_dbjson (no_files((0, ''db.json'') \<mapsto> partial_settings))) =
     Some (JObj (fmap_of_list [(''dateMode'', JStr ''calendarWeek'')])) \<and>
   section_after settings
     (openFile ''db'' unbound_store (no_files((0, ''db.json'') \<mapsto> partial_settings))) =
     Some (JObj (fmap_of_list
       [(''id'', JStr ''app''), (''dateMode'', JStr ''calendarWeek''), (''logoDataUrl'', JNull),
        (''pdfAccentColor'', JStr ''#4b5563''), (''pdfBgColor'', JStr ''#f3f4f6'')]))"
proof -
  have n: "json_name ''db'' = ''db.json''"
    by (simp add: json_name_def endsWith_def toLowerCase_def lower_char_def)
  have a: "section_after settings
     (connectFolder_dbjson (Some 0) initial_dbjson (no_files((0, ''db.json'') \<mapsto> partial_settings))) =
     Some (JObj (fmap_of_list [(''dateMode'', JStr ''calendarWeek'')]))"
    by (simp add: connectFolder_dbjson_def getFileHandle_create_def loadFromFile_dbjson_def
      partial_settings_def no_files_def initial_dbjson_def empty_doc_def section_after_def
      overlay_sections_def overlay_def fmlookup_of_list)
  have e: "default_settings ++\<^sub>f fmap_of_list [(''dateMode'', JStr ''calendarWeek'')] =
      fmap_of_list
       [(''id'', JStr ''app''), (''dateMode'', JStr ''calendarWeek''), (''logoDataUrl'', JNull),
        (''pdfAccentColor'', JStr ''#4b5563''), (''pdfBgColor'', JStr ''#f3f4f6'')]"
    by (rule fmap_ext) (auto simp: default_settings_lookup fmlookup_of_list)
  have b: "section_after settings
     (openFile ''db'' unbound_store (no_files((0, ''db.json'') \<mapsto> partial_settings))) =
     Some (JObj (default_settings ++\<^sub>f fmap_of_list [(''dateMode'', JStr ''calendarWeek'')]))"
    by (simp add: openFile_def getFileHandle_create_def loadFromFile_def Let_def n
      partial_settings_def no_files_def unbound_store_def unexpected_root_def looksValid_def
      section_after_def merge_sections_def merge_settings_def merge_attendees_def
      merge_meetings_def merge_draft_def empty_doc_def fmlookup_of_list)
  show ?thesis using a b unfolding e by simp
qed

section \<open>The fixed ids\<close>




















section \<open>Draft and meetings\<close>

lemma saveMeeting_adds_at_most:
  assumes "data st = Some d" and "meetings d = JArr L"
  shows "\<exists>L4. section_after meetings (saveMeeting m st dk) = Some (JArr L4) \<and>
           set L4 \<subseteq> insert m (set L)"
proof (cases "findIndex_id L m")
  case (Inl e)
  then show ?thesis
    by (auto simp: saveMeeting_def assms section_after_triple)
next
  case (Inr r)
  show ?thesis
  proof (cases r)
    case None
    then show ?thesis
      using Inr by (auto simp: saveMeeting_def assms section_after_save)
  next
    case (Some i)
    then show ?thesis
      using Inr set_update_subset_insert[of L i m]
      by (simp add: saveMeeting_def assms section_after_save)
  qed
qed

lemma openFile_unrecognised_document:
  assumes "dirHandle st = Some dir" and "unrecognised_at dk (dir, json_name fname)"
  shows "data (fst (snd (openFile fname st dk))) = Some empty_doc"
proof (cases "dk (dir, json_name fname)")
  case None
  then show ?thesis
    using assms(1)
    by (simp add: openFile_def getFileHandle_create_def loadFromFile_def Let_def)
next
  case (Some t)
  then have "unrecognised t" using assms(2) by (simp add: unrecognised_at_def)
  then show ?thesis
    using assms(1) Some
    by (simp add: openFile_def getFileHandle_create_def Let_def
        loadFromFile_unrecognised[where t = t])
qed

text \<open>
  C7, as amended. Whenever finalizing (\<open>saveMeeting\<close> of the content, then
  \<open>clearDraft\<close>) returns without error, the draft is \<open>null\<close> and the meeting is in the
  meetings list; on a store bound to a file whose meetings are a list without \<open>null\<close>
  it does return without error, and the file then holds that document. The store
  itself does not keep draft and meetings apart. \<open>saveDraft\<close>, \<open>clearDraft\<close>,
  \<open>saveSettings\<close> and \<open>saveAttendees\<close> leave the meetings list as it is and
  \<open>deleteMeeting\<close> adds no entry; \<open>saveMeeting\<close> adds at most its argument and leaves
  the draft as it is; \<open>openFile\<close> takes the meetings (when they are a list) and the
  draft from the file, and leaves no meeting and no draft when the file is new, blank,
  malformed or unrecognised. So a meeting enters the list by \<open>saveMeeting\<close>, in a
  finalize or on its own, or by a load.
\<close>

theorem finalize_clears_draft:
  "(finalize m st dk = (None, st1, dk1) \<longrightarrow>
      (\<exists>d1 L1. data st1 = Some d1 \<and> draft d1 = JNull \<and> meetings d1 = JArr L1 \<and> m \<in> set L1)) \<and>
   (data st = Some d \<and> meetings d = JArr L \<and> JNull \<notin> set L \<and> m \<noteq> JNull \<and>
    fileHandle st = Some h \<longrightarrow>
      (\<exists>st2 dk2 d2 L2. finalize m st dk = (None, st2, dk2) \<and> data st2 = Some d2 \<and>
         draft d2 = JNull \<and> meetings d2 = JArr L2 \<and> m \<in> set L2 \<and>
         dk2 h = Some (Json (stringify (Some d2))))) \<and>
   (data st = Some d \<and> meetings d = JArr L \<longrightarrow>
      section_after meetings (saveDraft x st dk) = Some (JArr L) \<and>
      section_after meetings (clearDraft st dk) = Some (JArr L) \<and>
      section_after meetings (saveSettings s st dk) = Some (JArr L) \<and>
      section_after meetings (saveAttendees a st dk) = Some (JArr L) \<and>
      (\<exists>L3. section_after meetings (deleteMeeting i st dk) = Some (JArr L3) \<and> set L3 \<subseteq> set L) \<and>
      (\<exists>L4. section_after meetings (saveMeeting m st dk) = Some (JArr L4) \<and>
             set L4 \<subseteq> insert m (set L)) \<and>
      section_after draft (saveMeeting m st dk) = Some (draft d)) \<and>
   (dirHandle st = Some dir \<and> unrecognised_at dk (dir, json_name fname) \<longrightarrow>
      section_after meetings (openFile fname st dk) = Some (JArr []) \<and>
      section_after draft (openFile fname st dk) = Some JNull) \<and>
   (dirHandle st = Some dir \<and> dk (dir, json_name fname) = Some (Json (JObj p)) \<and> looksValid p \<longrightarrow>
      section_after meetings (openFile fname st dk) =
        Some (case fmlookup p ''meetings'' of Some (JArr xs) \<Rightarrow> JArr xs | _ \<Rightarrow> JArr []) \<and>
      section_after draft (openFile fname st dk) =
        Some (case fmlookup p ''draft'' of Some r \<Rightarrow> r | None \<Rightarrow> JNull))"
proof -
  have A: "finalize m st dk = (None, st1, dk1) \<longrightarrow>
      (\<exists>d1 L1. data st1 = Some d1 \<and> draft d1 = JNull \<and> meetings d1 = JArr L1 \<and> m \<in> set L1)"
    using finalize_success by blast
  have B: "\<exists>st2 dk2 d2 L2. finalize m st dk = (None, st2, dk2) \<and> data st2 = Some d2 \<and>
         draft d2 = JNull \<and> meetings d2 = JArr L2 \<and> m \<in> set L2 \<and>
         dk2 h = Some (Json (stringify (Some d2)))"
    if h: "data st = Some d" "meetings d = JArr L" "JNull \<notin> set L" "m \<noteq> JNull"
      and b: "fileHandle st = Some h"
  proof -
    obtain L1 where L1: "saveMeeting m st dk = save (st\<lparr>data := Some (d\<lparr>meetings := JArr L1\<rparr>)\<rparr>) dk"
      "if \<exists>x\<in>set L. same_id x m
            then \<exists>i<length L. same_id (L ! i) m \<and> (\<forall>j<i. \<not> same_id (L ! j) m) \<and> L1 = L[i := m]
            else L1 = L @ [m]"
      using saveMeeting_upsert[OF h] by blast
    have mem: "m \<in> set L1"
      using L1(2) by (auto split: if_splits intro: set_update_memI)
    show ?thesis
      using mem by (simp add: finalize_def L1(1) save_def clearDraft_def b)
  qed
  have C: "section_after meetings (saveDraft x st dk) = Some (JArr L) \<and>
      section_after meetings (clearDraft st dk) = Some (JArr L) \<and>
      section_after meetings (saveSettings s st dk) = Some (JArr L) \<and>
      section_after meetings (saveAttendees a st dk) = Some (JArr L) \<and>
      (\<exists>L3. section_after meetings (deleteMeeting i st dk) = Some (JArr L3) \<and> set L3 \<subseteq> set L) \<and>
      (\<exists>L4. section_after meetings (saveMeeting m st dk) = Some (JArr L4) \<and>
             set L4 \<subseteq> insert m (set L)) \<and>
      section_after draft (saveMeeting m st dk) = Some (draft d)"
    if h: "data st = Some d" "meetings d = JArr L"
    using deleteMeeting_adds_nothing[OF h] saveMeeting_adds_at_most[OF h]
    by (simp add: frame_saveDraft frame_clearDraft frame_saveSettings frame_saveAttendees
        frame_saveMeeting h)
  have D: "section_after meetings (openFile fname st dk) = Some (JArr []) \<and>
      section_after draft (openFile fname st dk) = Some JNull"
    if "dirHandle st = Some dir" "unrecognised_at dk (dir, json_name fname)"
    using openFile_unrecognised_document[OF that]
    by (simp add: section_after_def empty_doc_def)
  have E: "section_after meetings (openFile fname st dk) =
        Some (case fmlookup p ''meetings'' of Some (JArr xs) \<Rightarrow> JArr xs | _ \<Rightarrow> JArr []) \<and>
      section_after draft (openFile fname st dk) =
        Some (case fmlookup p ''draft'' of Some r \<Rightarrow> r | None \<Rightarrow> JNull)"
    if "dirHandle st = Some dir" "dk (dir, json_name fname) = Some (Json (JObj p))" "looksValid p"
    using openFile_merges_sections[of st dir dk fname p] that by blast
  from A B C D E show ?thesis by blast
qed

theorem finalize_clears_draft_witness:
  "(\<exists>st1 dk1 d1 L1. finalize (meeting_at ''m9'' 9) bound_store saved_files = (None, st1, dk1) \<and>
      data st1 = Some d1 \<and> draft d1 = JNull \<and> meetings d1 = JArr L1 \<and>
      meeting_at ''m9'' 9 \<in> set L1 \<and> dk1 (0, ''minutes.json'') = Some (Json (stringify (Some d1)))) \<and>
   section_after meetings (saveDraft sample_draft bound_store saved_files) =
     Some (JArr [meeting_at ''m5'' 5, meeting_at ''m1'' 1, meeting_at ''m3'' 3]) \<and>
   section_after draft (saveMeeting (meeting_at ''m9'' 9) bound_store saved_files) =
     Some sample_draft \<and>
   section_after meetings (openFile ''minutes'' bound_store saved_files) =
     Some (JArr [meeting_at ''m5'' 5, meeting_at ''m1'' 1, meeting_at ''m3'' 3]) \<and>
   section_after draft (openFile ''minutes'' bound_store saved_files) = Some sample_draft \<and>
   section_after meetings (openFile ''minutes'' bound_store foreign_files) = Some (JArr []) \<and>
   section_after draft (openFile ''minutes'' bound_store foreign_files) = Some JNull"
proof -
  have b: "data bound_store = Some sample_doc"
    and h: "fileHandle bound_store = Some (0, ''minutes.json'')"
    and dir: "dirHandle bound_store = Some 0"
    by (simp_all add: bound_store_def)
  have f: "saved_files (0, json_name ''minutes'') = Some (Json (JObj (properties sample_doc)))"
    by (simp add: saved_files_def json_name_minutes stringify_def)
  have u: "unrecognised_at foreign_files (0, json_name ''minutes'')"
    by (simp add: unrecognised_at_def foreign_files_def json_name_minutes)
  have dr: "draft sample_doc = sample_draft" by (simp add: sample_doc_def)
  note S = finalize_clears_draft[where st = bound_store and d = sample_doc
      and m = "meeting_at ''m9'' 9" and x = sample_draft
      and L = "[meeting_at ''m5'' 5, meeting_at ''m1'' 1, meeting_at ''m3'' 3]"
      and h = "(0, ''minutes.json'')" and dk = saved_files and dir = 0 and fname = "''minutes''"
      and p = "properties sample_doc"]
  note F = finalize_clears_draft[where st = bound_store and dk = foreign_files and dir = 0
      and fname = "''minutes''"]
  have 1: "\<exists>st1 dk1 d1 L1. finalize (meeting_at ''m9'' 9) bound_store saved_files = (None, st1, dk1) \<and>
      data st1 = Some d1 \<and> draft d1 = JNull \<and> meetings d1 = JArr L1 \<and>
      meeting_at ''m9'' 9 \<in> set L1 \<and> dk1 (0, ''minutes.json'') = Some (Json (stringify (Some d1)))"
    using S b h sample_meetings sample_meetings_no_null meeting_at_not_null by blast
  have 2: "section_after meetings (saveDraft sample_draft bound_store saved_files) =
     Some (JArr [meeting_at ''m5'' 5, meeting_at ''m1'' 1, meeting_at ''m3'' 3])"
    "section_after draft (saveMeeting (meeting_at ''m9'' 9) bound_store saved_files) =
     Some sample_draft"
    using S b sample_meetings dr by simp_all
  have 3: "section_after meetings (openFile ''minutes'' bound_store saved_files) =
     Some (JArr [meeting_at ''m5'' 5, meeting_at ''m1'' 1, meeting_at ''m3'' 3])"
    "section_after draft (openFile ''minutes'' bound_store saved_files) = Some sample_draft"
    using S dir f sample_meetings dr by (simp_all add: looksValid_properties properties_lookup)
  have 4: "section_after meetings (openFile ''minutes'' bound_store foreign_files) = Some (JArr [])"
    "section_after draft (openFile ''minutes'' bound_store foreign_files) = Some JNull"
    using F dir u by simp_all
  from 1 2 3 4 show ?thesis by simp
qed

text \<open>
  C7, as stated, fails: \<open>saveMeeting\<close> alone, with the draft as its argument, succeeds
  on a bound store, appends the draft to the meetings list and leaves the draft in
  place. A meeting has entered the list without a finalize, and the draft is among
  the meetings.
\<close>

theorem saveMeeting_keeps_draft:
  "fst (saveMeeting sample_draft bound_store no_files) = None \<and>
   section_after meetings (saveMeeting sample_draft bound_store no_files) =
     Some (JArr [meeting_at ''m5'' 5, meeting_at ''m1'' 1, meeting_at ''m3'' 3, sample_draft]) \<and>
   section_after draft (saveMeeting sample_draft bound_store no_files) = Some sample_draft"
proof -
  let ?L = "[meeting_at ''m5'' 5, meeting_at ''m1'' 1, meeting_at ''m3'' 3]"
  have d: "data bound_store = Some sample_doc" by (simp add: bound_store_def)
  have n: "sample_draft \<noteq> JNull" by (simp add: sample_draft_def)
  have ids: "id_of sample_draft = Some (JStr ''current'')"
    by (simp add: id_of_def sample_draft_def fmlookup_of_list)
  have no: "\<not> (\<exists>x\<in>set ?L. same_id x sample_draft)"
    by (simp add: same_id_def meeting_at_id ids)
  obtain L1 where L1: "saveMeeting sample_draft bound_store no_files =
      save (bound_store\<lparr>data := Some (sample_doc\<lparr>meetings := JArr L1\<rparr>)\<rparr>) no_files"
    "if \<exists>x\<in>set ?L. same_id x sample_draft
     then \<exists>i<length ?L. same_id (?L ! i) sample_draft \<and> (\<forall>j<i. \<not> same_id (?L ! j) sample_draft) \<and>
            L1 = ?L[i := sample_draft]
     else L1 = ?L @ [sample_draft]"
    using saveMeeting_upsert[OF d sample_meetings sample_meetings_no_null n] by blast
  have "L1 = ?L @ [sample_draft]" using L1(2) no by presburger
  then show ?thesis
    by (simp add: L1(1) section_after_save) (simp add: save_def bound_store_def sample_doc_def)
qed

end
